theory Spec2Isabelle
  imports Main
begin

section \<open>JavaScript values\<close>

text \<open>
  Handler results, responses, payloads and the current admin are untyped at run time
  (\<^verbatim>\<open>any\<close>). \<open>JNum\<close> stands for a finite number (only the test against zero matters
  below), \<open>JNaN\<close> for the not-a-number value. An object is its list of own properties.
\<close>

datatype jsval =
    JUndefined
  | JNull
  | JBool bool
  | JNum int
  | JNaN
  | JStr string
  | JArr "jsval list"
  | JObj "(string \<times> jsval) list"

text \<open>What \<^verbatim>\<open>if (v)\<close>, \<^verbatim>\<open>!v\<close> and \<^verbatim>\<open>v && w\<close> test.\<close>

fun truthy :: "jsval \<Rightarrow> bool" where
  "truthy JUndefined = False"
| "truthy JNull = False"
| "truthy (JBool b) = b"
| "truthy (JNum n) = (n \<noteq> 0)"
| "truthy JNaN = False"
| "truthy (JStr s) = (s \<noteq> [])"
| "truthy (JArr xs) = True"
| "truthy (JObj fs) = True"

text \<open>
  The property read \<^verbatim>\<open>v.k\<close> for the two keys the controller reads (\<^verbatim>\<open>record\<close> and
  \<^verbatim>\<open>recordActions\<close>): an own property of an object, \<^verbatim>\<open>undefined\<close> on every other
  truthy value. The controller reads a property only behind \<^verbatim>\<open>&&\<close>, on a truthy value.
\<close>

fun getProp :: "jsval \<Rightarrow> string \<Rightarrow> jsval" where
  "getProp (JObj fs) k = (case map_of fs k of None \<Rightarrow> JUndefined | Some v \<Rightarrow> v)"
| "getProp v k = JUndefined"

text \<open>Key presence, as opposed to truthiness: \<^verbatim>\<open>k in v\<close> for an object \<open>v\<close>.\<close>

fun hasProp :: "jsval \<Rightarrow> string \<Rightarrow> bool" where
  "hasProp (JObj fs) k = (map_of fs k \<noteq> None)"
| "hasProp v k = False"

section \<open>Errors\<close>

text \<open>
  \<open>ForbiddenError actionName resourceId\<close> and \<open>ConfigurationError message source\<close> are
  the two errors the controller constructs. \<open>TypeError\<close> is what the runtime raises on
  a property read of \<^verbatim>\<open>undefined\<close> (its message is the engine's; the text used below
  stands for it). \<open>NotFoundError\<close> and \<open>Thrown\<close> are raised by collaborators only
  (resource lookup, storage, population, handlers).
\<close>

datatype error =
    NotFoundError string
  | ForbiddenError string string
  | ConfigurationError string string
  | TypeError string
  | Thrown jsval

section \<open>Data model\<close>

type_synonym CurrentAdmin = jsval

text \<open>
  A record of a resource. \<open>rec_title r actor\<close> is the record's serialized title-property
  value as that actor sees it; \<open>rec_params\<close> are the stored field values.
\<close>

record BaseRecord =
  rec_id :: string
  rec_params :: "(string \<times> string) list"
  rec_title :: "CurrentAdmin \<Rightarrow> string"

text \<open>
  The value of the variable \<^verbatim>\<open>record\<close> in \<^verbatim>\<open>recordAction\<close>: \<^verbatim>\<open>findOne\<close> may give
  \<^verbatim>\<open>null\<close>, and destructuring an empty array gives \<^verbatim>\<open>undefined\<close>.
\<close>

datatype RecordRef = RNull | RUndefined | RRec BaseRecord

record Params =
  resourceId :: string
  action :: string
  recordId :: "string option"
  query :: "string option"

record ActionRequest =
  params :: Params
  payload :: jsval

text \<open>
  The context object a handler receives. The source passes the resource and the action
  objects themselves; a handler cannot take as argument the objects that contain it, so
  here they are passed by reference: the resource by its id, the action by its name.
  \<open>hc_record\<close> is \<open>None\<close> when the context has no \<^verbatim>\<open>record\<close> key (\<^verbatim>\<open>resourceAction\<close>)
  and \<open>Some r\<close> for \<^verbatim>\<open>{ ...actionContext, record }\<close>. The view helpers and the admin
  handle are the controller's own and carry no further information.
\<close>

record HandlerContext =
  hc_resource :: string
  hc_action :: string
  hc_currentAdmin :: CurrentAdmin
  hc_record :: "RecordRef option"

record Action =
  name :: string
  isAccessible :: "CurrentAdmin \<Rightarrow> RecordRef \<Rightarrow> bool"
  handler :: "ActionRequest \<Rightarrow> jsval \<Rightarrow> HandlerContext \<Rightarrow> error + jsval"

text \<open>\<^verbatim>\<open>new Filter(filters, resource)\<close>: the filters and the resource they are for.\<close>

record Filter =
  filters :: "(string \<times> string) list"
  filter_resource :: string

datatype Direction = asc | desc

record Sort =
  sortBy :: string
  direction :: Direction

record FindOptions =
  limit :: nat
  sort_o :: Sort

text \<open>\<^verbatim>\<open>resource.decorate()\<close>: the registered actions by name, and the name of the title property.\<close>

record ResourceDecorator =
  actions :: "(string \<times> Action) list"
  titleProperty :: string

record Resource =
  id_r :: string
  decorate :: ResourceDecorator
  find_r :: "Filter \<Rightarrow> FindOptions \<Rightarrow> error + BaseRecord list"
  findOne :: "string option \<Rightarrow> error + RecordRef"

text \<open>The context of the dashboard handler: \<^verbatim>\<open>{ h, currentAdmin, _admin }\<close>.\<close>

record PageContext =
  pc_currentAdmin :: CurrentAdmin

record Dashboard =
  dashboard_handler :: "(ActionRequest \<Rightarrow> jsval \<Rightarrow> PageContext \<Rightarrow> error + jsval) option"

record AdminBroOptions =
  dashboard_o :: "Dashboard option"

text \<open>
  The admin instance, as far as the controller uses it. \<^verbatim>\<open>findResource\<close> is a method of
  the instance: it gives the resource or raises.
\<close>

record AdminBro =
  findResource :: "string \<Rightarrow> error + Resource"
  options :: AdminBroOptions

record ApiController =
  admin :: AdminBro
  currentAdmin :: CurrentAdmin

text \<open>
  What the property read \<^verbatim>\<open>actions[actionName]\<close> gives. \<^verbatim>\<open>actions\<close> is a plain object, so
  the read goes through the prototype chain: a registered action (an own property),
  else a member inherited from \<^verbatim>\<open>Object.prototype\<close> when the name is one of its keys,
  else \<^verbatim>\<open>undefined\<close>.
\<close>

datatype ActionRead = NoAction | InheritedMember string | OwnAction Action

definition objectPrototypeKeys :: "string list" where
  "objectPrototypeKeys =
     [''constructor'', ''__defineGetter__'', ''__defineSetter__'', ''hasOwnProperty'',
      ''__lookupGetter__'', ''__lookupSetter__'', ''isPrototypeOf'', ''propertyIsEnumerable'',
      ''toString'', ''valueOf'', ''__proto__'', ''toLocaleString'']"

definition readAction :: "(string \<times> Action) list \<Rightarrow> string \<Rightarrow> ActionRead" where
  "readAction acts k =
     (case map_of acts k of
        Some a \<Rightarrow> OwnAction a
      | None \<Rightarrow> if k \<in> set objectPrototypeKeys then InheritedMember k else NoAction)"

text \<open>What \<^verbatim>\<open>getActionContext\<close> returns.\<close>

record ActionContext =
  ctx_resource :: Resource
  ctx_action :: ActionRead
  ctx_currentAdmin :: CurrentAdmin

section \<open>Calls into collaborators\<close>

text \<open>
  Every operation returns the calls it made, in order, beside its result, so that what
  was called, with what and in which order can be stated. The calls recorded are the
  access checks, the storage calls \<^verbatim>\<open>find\<close> and \<^verbatim>\<open>findOne\<close>, the populator and the
  handlers; the resource lookup, \<^verbatim>\<open>decorate\<close>, \<^verbatim>\<open>toJSON\<close> and the constructions
  \<^verbatim>\<open>new ViewHelpers\<close> and \<^verbatim>\<open>new Filter\<close> are not.
\<close>

datatype event =
    IsAccessibleCall string CurrentAdmin RecordRef
  | FindCall string Filter FindOptions
  | FindOneCall string "string option"
  | PopulatorCall "RecordRef list"
  | HandlerCall string ActionRequest jsval HandlerContext
  | DashboardHandlerCall ActionRequest jsval PageContext

fun isHandlerCall :: "event \<Rightarrow> bool" where
  "isHandlerCall (HandlerCall n req resp c) = True"
| "isHandlerCall e = False"

fun isDashboardHandlerCall :: "event \<Rightarrow> bool" where
  "isDashboardHandlerCall (DashboardHandlerCall req resp c) = True"
| "isDashboardHandlerCall e = False"

fun isFindCall :: "event \<Rightarrow> bool" where
  "isFindCall (FindCall r f opts) = True"
| "isFindCall e = False"

text \<open>No access check happens before the first call of the populator.\<close>

fun populatedFirst :: "event list \<Rightarrow> bool" where
  "populatedFirst [] = True"
| "populatedFirst (PopulatorCall rs # t) = True"
| "populatedFirst (IsAccessibleCall n a r # t) = False"
| "populatedFirst (e # t) = populatedFirst t"

text \<open>The records given to the access check, and those given to handlers in their context.\<close>

fun checkedRecords :: "event list \<Rightarrow> RecordRef option list" where
  "checkedRecords [] = []"
| "checkedRecords (IsAccessibleCall n a r # t) = Some r # checkedRecords t"
| "checkedRecords (e # t) = checkedRecords t"

fun handledRecords :: "event list \<Rightarrow> RecordRef option list" where
  "handledRecords [] = []"
| "handledRecords (HandlerCall n req resp c # t) = hc_record c # handledRecords t"
| "handledRecords (e # t) = handledRecords t"

section \<open>The controller\<close>

definition handlerContext :: "ActionContext \<Rightarrow> Action \<Rightarrow> RecordRef option \<Rightarrow> HandlerContext" where
  "handlerContext actionContext a r =
     \<lparr>hc_resource = id_r (ctx_resource actionContext), hc_action = name a,
      hc_currentAdmin = ctx_currentAdmin actionContext, hc_record = r\<rparr>"

definition getActionContext :: "ApiController \<Rightarrow> ActionRequest \<Rightarrow> error + ActionContext" where
  "getActionContext this request =
     (let actionName = action (params request) in
      case findResource (admin this) (resourceId (params request)) of
        Inl e \<Rightarrow> Inl e
      | Inr resource \<Rightarrow>
          Inr \<lparr>ctx_resource = resource,
               ctx_action = readAction (actions (decorate resource)) actionName,
               ctx_currentAdmin = currentAdmin this\<rparr>)"

text \<open>
  Modelled from the spec: \<^verbatim>\<open>BaseRecord.toJSON\<close> is not part of the source at hand. The
  spec has it map a record to \<^verbatim>\<open>{ id, title }\<close>, the title being the record's
  serialized title-property value, serialized for the given actor. The declared type
  \<^verbatim>\<open>SearchRecord\<close> has both fields as strings.
\<close>

definition toJSON :: "BaseRecord \<Rightarrow> CurrentAdmin \<Rightarrow> jsval" where
  "toJSON r actor = JObj [(''id'', JStr (rec_id r)), (''title'', JStr (rec_title r actor))]"

text \<open>
  \<^verbatim>\<open>decorated.actions.list\<close>: \<^verbatim>\<open>list\<close> is no key of \<^verbatim>\<open>Object.prototype\<close>, so the read is
  the registered action or \<^verbatim>\<open>undefined\<close>.
\<close>

definition search :: "ApiController \<Rightarrow> ActionRequest \<Rightarrow> event list \<times> (error + jsval)" where
  "search this request =
     (let queryString = query (params request) in
      case findResource (admin this) (resourceId (params request)) of
        Inl e \<Rightarrow> ([], Inl e)
      | Inr resource \<Rightarrow>
          (let decorated = decorate resource in
           case map_of (actions decorated) ''list'' of
             None \<Rightarrow> ([], Inl (TypeError ''Cannot read property isAccessible of undefined''))
           | Some list \<Rightarrow>
               (let check = IsAccessibleCall (name list) (currentAdmin this) RNull in
                if \<not> isAccessible list (currentAdmin this) RNull
                then ([check], Inl (ForbiddenError ''list'' (id_r resource)))
                else
                  (let titlePropertyName = titleProperty decorated;
                       fs = (case queryString of
                               None \<Rightarrow> []
                             | Some q \<Rightarrow> if q \<noteq> [] then [(titlePropertyName, q)] else []);
                       filter = \<lparr>filters = fs, filter_resource = id_r resource\<rparr>;
                       opts = \<lparr>limit = 50,
                               sort_o = \<lparr>sortBy = titlePropertyName, direction = asc\<rparr>\<rparr>;
                       call = FindCall (id_r resource) filter opts
                   in case find_r resource filter opts of
                        Inl e \<Rightarrow> ([check, call], Inl e)
                      | Inr records \<Rightarrow>
                          ([check, call],
                           Inr (JObj [(''records'',
                                  JArr (map (\<lambda>record. toJSON record (currentAdmin this)) records))]))))))"

definition resourceAction ::
  "ApiController \<Rightarrow> ActionRequest \<Rightarrow> jsval \<Rightarrow> event list \<times> (error + jsval)" where
  "resourceAction this request response =
     (case getActionContext this request of
        Inl e \<Rightarrow> ([], Inl e)
      | Inr actionContext \<Rightarrow>
          (case ctx_action actionContext of
             NoAction \<Rightarrow> ([], Inl (TypeError ''Cannot read property isAccessible of undefined''))
           | InheritedMember k \<Rightarrow> ([], Inl (TypeError ''isAccessible is not a function''))
           | OwnAction a \<Rightarrow>
               (let check = IsAccessibleCall (name a) (currentAdmin this) RNull in
                if \<not> isAccessible a (currentAdmin this) RNull
                then ([check],
                      Inl (ForbiddenError (name a) (id_r (ctx_resource actionContext))))
                else
                  (let c = handlerContext actionContext a None
                   in ([check, HandlerCall (name a) request response c],
                       handler a request response c)))))"

text \<open>The pattern \<^verbatim>\<open>[record] = ...\<close>: the first element, \<^verbatim>\<open>undefined\<close> of an empty array.\<close>

definition firstRecord :: "RecordRef list \<Rightarrow> RecordRef" where
  "firstRecord populated = (case populated of [] \<Rightarrow> RUndefined | r # rest \<Rightarrow> r)"

text \<open>\<^verbatim>\<open>populator\<close> is a function imported by the module; it is a parameter here.\<close>

definition recordAction ::
  "(RecordRef list \<Rightarrow> error + RecordRef list) \<Rightarrow> ApiController \<Rightarrow> ActionRequest \<Rightarrow> jsval
     \<Rightarrow> event list \<times> (error + jsval)" where
  "recordAction populator this request response =
     (let recordId' = recordId (params request) in
      case getActionContext this request of
        Inl e \<Rightarrow> ([], Inl e)
      | Inr actionContext \<Rightarrow>
          (let look = FindOneCall (id_r (ctx_resource actionContext)) recordId' in
           case findOne (ctx_resource actionContext) recordId' of
             Inl e \<Rightarrow> ([look], Inl e)
           | Inr found \<Rightarrow>
               (let pop = PopulatorCall [found] in
                case populator [found] of
                  Inl e \<Rightarrow> ([look, pop], Inl e)
                | Inr populated \<Rightarrow>
                    (let record = firstRecord populated in
                     case ctx_action actionContext of
                       NoAction \<Rightarrow>
                         ([look, pop],
                          Inl (TypeError ''Cannot read property isAccessible of undefined''))
                     | InheritedMember k \<Rightarrow>
                         ([look, pop], Inl (TypeError ''isAccessible is not a function''))
                     | OwnAction a \<Rightarrow>
                         (let check = IsAccessibleCall (name a) (currentAdmin this) record in
                          if \<not> isAccessible a (currentAdmin this) record
                          then ([look, pop, check],
                                Inl (ForbiddenError (name a) (id_r (ctx_resource actionContext))))
                          else
                            (let c = handlerContext actionContext a (Some record);
                                 call = HandlerCall (name a) request response c
                             in case handler a request response c of
                                  Inl e \<Rightarrow> ([look, pop, check, call], Inl e)
                                | Inr jsonWithRecord \<Rightarrow>
                                    if truthy jsonWithRecord
                                       \<and> truthy (getProp jsonWithRecord ''record'')
                                       \<and> truthy (getProp (getProp jsonWithRecord ''record'') ''recordActions'')
                                    then ([look, pop, check, call], Inr jsonWithRecord)
                                    else ([look, pop, check, call],
                                          Inl (ConfigurationError
                                                 ''handler of a recordAction should return a RecordJSON object''
                                                 ''Action.handler''))))))))"

definition dashboard ::
  "ApiController \<Rightarrow> ActionRequest \<Rightarrow> jsval \<Rightarrow> event list \<times> (error + jsval)" where
  "dashboard this request response =
     (let h = (case dashboard_o (options (admin this)) of
                 None \<Rightarrow> None
               | Some d \<Rightarrow> dashboard_handler d)
      in case h of
           Some f \<Rightarrow>
             (let c = \<lparr>pc_currentAdmin = currentAdmin this\<rparr>
              in ([DashboardHandlerCall request response c], f request response c))
         | None \<Rightarrow>
             ([],
              Inr (JObj [(''message'',
                     JStr ''You can override this method by setting up dashboard.handler fuction in AdminBro options'')])))"

section \<open>Ordering of find results\<close>

text \<open>
  The stored value of a property, and what it means for a list of records to be sorted
  ascending by a property under the store's ordering \<open>le\<close> of values.
\<close>

definition param :: "BaseRecord \<Rightarrow> string \<Rightarrow> string option" where
  "param r p = map_of (rec_params r) p"

definition sortedAscBy ::
  "(string option \<Rightarrow> string option \<Rightarrow> bool) \<Rightarrow> string \<Rightarrow> BaseRecord list \<Rightarrow> bool" where
  "sortedAscBy le p rs = sorted_wrt (\<lambda>a b. le (param a p) (param b p)) rs"

text \<open>
  Modelled from the spec: \<^verbatim>\<open>Resource.find\<close> belongs to the storage adapter, which is not
  part of the source at hand. The spec has it take \<^verbatim>\<open>{ limit, sort }\<close>, the limit being
  a ceiling on the number of records and the sort naming the property and the direction
  of the order of the result. \<open>honoursOptions le opts records\<close> says that a result
  \<open>records\<close> respects the options \<open>opts\<close>.
\<close>

definition honoursOptions ::
  "(string option \<Rightarrow> string option \<Rightarrow> bool) \<Rightarrow> FindOptions \<Rightarrow> BaseRecord list \<Rightarrow> bool" where
  "honoursOptions le opts records =
     (length records \<le> limit opts
      \<and> (case direction (sort_o opts) of
            asc \<Rightarrow> sortedAscBy le (sortBy (sort_o opts)) records
          | desc \<Rightarrow> sortedAscBy le (sortBy (sort_o opts)) (rev records)))"

section \<open>A small installation\<close>

text \<open>
  One resource \<open>orders\<close> with title property \<open>name\<close> and two stored records; actions are
  open to the actor \<open>root\<close> only; the populator gives its argument back.
\<close>

definition exAnn :: BaseRecord where
  "exAnn = \<lparr>rec_id = ''1'', rec_params = [(''name'', ''Ann A'')], rec_title = (\<lambda>actor. ''Ann A'')\<rparr>"

definition exBob :: BaseRecord where
  "exBob = \<lparr>rec_id = ''42'', rec_params = [(''name'', ''Bob B'')], rec_title = (\<lambda>actor. ''Bob B'')\<rparr>"

text \<open>Bytewise lexicographic order of strings, a missing value first.\<close>

fun strLe :: "string \<Rightarrow> string \<Rightarrow> bool" where
  "strLe [] ys = True"
| "strLe (x # xs) [] = False"
| "strLe (x # xs) (y # ys) =
     ((of_char x :: nat) < of_char y \<or> (x = y \<and> strLe xs ys))"

fun exLe :: "string option \<Rightarrow> string option \<Rightarrow> bool" where
  "exLe None b = True"
| "exLe (Some x) None = False"
| "exLe (Some x) (Some y) = strLe x y"

fun exMatches :: "(string \<times> string) list \<Rightarrow> BaseRecord \<Rightarrow> bool" where
  "exMatches [] r = True"
| "exMatches ((k, q) # fs) r =
     ((case param r k of None \<Rightarrow> False | Some v \<Rightarrow> take (length q) v = q) \<and> exMatches fs r)"

definition exFind :: "Filter \<Rightarrow> FindOptions \<Rightarrow> error + BaseRecord list" where
  "exFind f opts = Inr (take (limit opts) (filter (exMatches (filters f)) [exAnn, exBob]))"

definition exFindOne :: "string option \<Rightarrow> error + RecordRef" where
  "exFindOne i = (if i = Some ''42'' then Inr (RRec exBob) else Inr RNull)"

definition exAction :: "string \<Rightarrow> (error + jsval) \<Rightarrow> Action" where
  "exAction n result =
     \<lparr>name = n, isAccessible = (\<lambda>actor r. actor = JStr ''root''),
      handler = (\<lambda>request response c. result)\<rparr>"

definition exResource :: "(string \<times> Action) list \<Rightarrow> Resource" where
  "exResource acts =
     \<lparr>id_r = ''orders'', decorate = \<lparr>actions = acts, titleProperty = ''name''\<rparr>,
      find_r = exFind, findOne = exFindOne\<rparr>"

definition exController :: "CurrentAdmin \<Rightarrow> (string \<times> Action) list \<Rightarrow> ApiController" where
  "exController actor acts =
     \<lparr>admin = \<lparr>findResource = (\<lambda>i. if i = ''orders'' then Inr (exResource acts)
                                     else Inl (NotFoundError i)),
               options = \<lparr>dashboard_o = None\<rparr>\<rparr>,
      currentAdmin = actor\<rparr>"

definition exRequest :: "string \<Rightarrow> string option \<Rightarrow> string option \<Rightarrow> ActionRequest" where
  "exRequest act rid q =
     \<lparr>params = \<lparr>resourceId = ''orders'', action = act, recordId = rid, query = q\<rparr>,
      payload = JNull\<rparr>"

definition exPopulator :: "RecordRef list \<Rightarrow> error + RecordRef list" where
  "exPopulator rs = Inr rs"

text \<open>
  A populator that resolves the customer of each record, and an action open only for
  records whose customer has been resolved.
\<close>

fun exResolve :: "RecordRef \<Rightarrow> RecordRef" where
  "exResolve (RRec r) = RRec (r\<lparr>rec_params := rec_params r @ [(''customer'', ''Ann A'')]\<rparr>)"
| "exResolve r = r"

definition exResolving :: "RecordRef list \<Rightarrow> error + RecordRef list" where
  "exResolving rs = Inr (map exResolve rs)"

fun exHasCustomer :: "RecordRef \<Rightarrow> bool" where
  "exHasCustomer (RRec r) = (map_of (rec_params r) ''customer'' \<noteq> None)"
| "exHasCustomer r = False"

definition exCustomerAction :: Action where
  "exCustomerAction =
     \<lparr>name = ''approve'', isAccessible = (\<lambda>actor r. exHasCustomer r),
      handler = (\<lambda>request response c. Inr JNull)\<rparr>"

text \<open>A well-formed record JSON, and one whose \<^verbatim>\<open>recordActions\<close> key is present but null.\<close>

definition exRecordJSON :: jsval where
  "exRecordJSON = JObj [(''record'', JObj [(''id'', JStr ''42''), (''recordActions'', JArr [])])]"

definition exNullActionsJSON :: jsval where
  "exNullActionsJSON = JObj [(''record'', JObj [(''id'', JStr ''42''), (''recordActions'', JNull)])]"

text \<open>The result of the spec's scenario: a record without \<^verbatim>\<open>recordActions\<close>.\<close>

definition exNoActionsJSON :: jsval where
  "exNoActionsJSON = JObj [(''record'', JObj [(''id'', JStr ''42'')])]"

definition exActions :: "string \<Rightarrow> (error + jsval) \<Rightarrow> (string \<times> Action) list" where
  "exActions n result = [(n, exAction n result)]"

section \<open>Properties of the controller\<close>

lemmas ex_defs = exController_def exRequest_def exResource_def exAction_def exActions_def
  exFind_def exFindOne_def exPopulator_def exAnn_def exBob_def

text \<open>What \<open>recordAction\<close> returns once the handler has completed with a value.\<close>

lemma recordAction_completed:
  assumes "getActionContext this request = Inr ctx" and "ctx_action ctx = OwnAction a"
    and "findOne (ctx_resource ctx) (recordId (params request)) = Inr found"
    and "populator [found] = Inr populated"
    and "isAccessible a (currentAdmin this) (firstRecord populated)"
    and "handler a request response (handlerContext ctx a (Some (firstRecord populated))) = Inr v"
  shows "snd (recordAction populator this request response) =
           (if truthy v \<and> truthy (getProp v ''record'')
               \<and> truthy (getProp (getProp v ''record'') ''recordActions'')
            then Inr v
            else Inl (ConfigurationError
                        ''handler of a recordAction should return a RecordJSON object''
                        ''Action.handler''))"
  using assms by (simp add: recordAction_def Let_def)

lemma getProp_absent: "\<not> hasProp v k \<Longrightarrow> getProp v k = JUndefined"
  by (cases v) auto

lemma recordAction_trace_shape:
  "fst (recordAction populator this request response) = t \<Longrightarrow>
   populatedFirst t \<and> length (checkedRecords t) \<le> 1
   \<and> (handledRecords t = [] \<or> handledRecords t = checkedRecords t)"
  by (auto simp: recordAction_def Let_def handlerContext_def
           split: sum.splits ActionRead.splits if_splits)

text \<open>The example installation, evaluated.\<close>

lemma ex_context:
  "getActionContext (exController actor (exActions n result)) (exRequest n rid q) =
     Inr \<lparr>ctx_resource = exResource (exActions n result),
          ctx_action = OwnAction (exAction n result), ctx_currentAdmin = actor\<rparr>"
  by (simp add: getActionContext_def readAction_def exController_def exRequest_def
        exResource_def exActions_def)

lemma ex_resource:
  "findResource (admin (exController actor acts)) (resourceId (params (exRequest n rid q))) =
     Inr (exResource acts)"
  by (simp add: exController_def exRequest_def)

lemma ex_list_action:
  "map_of (actions (decorate (exResource (exActions ''list'' result)))) ''list'' =
     Some (exAction ''list'' result)"
  by (simp add: exResource_def exActions_def)

text \<open>
  C1. When the resolved action's \<open>isAccessible\<close> is false (asked with \<^verbatim>\<open>null\<close> by
  \<open>resourceAction\<close>, with the loaded and populated record by \<open>recordAction\<close>), the
  operation fails with \<open>ForbiddenError\<close> carrying the action's name and the resource's
  id, and no handler is called.
\<close>

theorem inaccessible_action_forbidden:
  assumes "getActionContext this request = Inr ctx" and "ctx_action ctx = OwnAction a"
  shows "(\<not> isAccessible a (currentAdmin this) RNull \<longrightarrow>
            snd (resourceAction this request response) =
              Inl (ForbiddenError (name a) (id_r (ctx_resource ctx)))
            \<and> filter isHandlerCall (fst (resourceAction this request response)) = [])
       \<and> (\<forall>found populated.
            findOne (ctx_resource ctx) (recordId (params request)) = Inr found
            \<and> populator [found] = Inr populated
            \<and> \<not> isAccessible a (currentAdmin this) (firstRecord populated) \<longrightarrow>
            snd (recordAction populator this request response) =
              Inl (ForbiddenError (name a) (id_r (ctx_resource ctx)))
            \<and> filter isHandlerCall (fst (recordAction populator this request response)) = [])"
  using assms by (simp add: resourceAction_def recordAction_def Let_def)

theorem inaccessible_action_forbidden_witness:
  "getActionContext (exController (JStr ''guest'') (exActions ''approve'' (Inr exRecordJSON)))
      (exRequest ''approve'' (Some ''42'') None)
    = Inr \<lparr>ctx_resource = exResource (exActions ''approve'' (Inr exRecordJSON)),
           ctx_action = OwnAction (exAction ''approve'' (Inr exRecordJSON)),
           ctx_currentAdmin = JStr ''guest''\<rparr>
   \<and> \<not> isAccessible (exAction ''approve'' (Inr exRecordJSON)) (JStr ''guest'') RNull
   \<and> snd (resourceAction (exController (JStr ''guest'') (exActions ''approve'' (Inr exRecordJSON)))
        (exRequest ''approve'' (Some ''42'') None) JNull)
      = Inl (ForbiddenError ''approve'' ''orders'')
   \<and> filter isHandlerCall
        (fst (resourceAction (exController (JStr ''guest'') (exActions ''approve'' (Inr exRecordJSON)))
          (exRequest ''approve'' (Some ''42'') None) JNull)) = []
   \<and> exFindOne (Some ''42'') = Inr (RRec exBob)
   \<and> exPopulator [RRec exBob] = Inr [RRec exBob]
   \<and> \<not> isAccessible (exAction ''approve'' (Inr exRecordJSON)) (JStr ''guest'')
         (firstRecord [RRec exBob])
   \<and> snd (recordAction exPopulator
        (exController (JStr ''guest'') (exActions ''approve'' (Inr exRecordJSON)))
        (exRequest ''approve'' (Some ''42'') None) JNull)
      = Inl (ForbiddenError ''approve'' ''orders'')
   \<and> filter isHandlerCall
        (fst (recordAction exPopulator
          (exController (JStr ''guest'') (exActions ''approve'' (Inr exRecordJSON)))
          (exRequest ''approve'' (Some ''42'') None) JNull)) = []"
proof -
  let ?C = "exController (JStr ''guest'') (exActions ''approve'' (Inr exRecordJSON))"
  let ?R = "exRequest ''approve'' (Some ''42'') None"
  let ?a = "exAction ''approve'' (Inr exRecordJSON)"
  let ?ctx = "\<lparr>ctx_resource = exResource (exActions ''approve'' (Inr exRecordJSON)),
               ctx_action = OwnAction ?a, ctx_currentAdmin = JStr ''guest''\<rparr>"
  have h1: "getActionContext ?C ?R = Inr ?ctx" by (rule ex_context)
  have h2: "ctx_action ?ctx = OwnAction ?a" by simp
  have g: "\<not> isAccessible ?a (currentAdmin ?C) RNull"
    by (simp add: exAction_def exController_def)
  have f: "findOne (ctx_resource ?ctx) (recordId (params ?R)) = Inr (RRec exBob)"
    by (simp add: exResource_def exRequest_def exFindOne_def)
  have p: "exPopulator [RRec exBob] = Inr [RRec exBob]" by (simp add: exPopulator_def)
  have g': "\<not> isAccessible ?a (currentAdmin ?C) (firstRecord [RRec exBob])"
    by (simp add: exAction_def exController_def)
  note T = inaccessible_action_forbidden [where populator = exPopulator and response = JNull, OF h1 h2]
  have r1: "snd (resourceAction ?C ?R JNull) =
              Inl (ForbiddenError (name ?a) (id_r (ctx_resource ?ctx)))
            \<and> filter isHandlerCall (fst (resourceAction ?C ?R JNull)) = []"
    using conjunct1 [OF T] g by blast
  have r2: "snd (recordAction exPopulator ?C ?R JNull) =
              Inl (ForbiddenError (name ?a) (id_r (ctx_resource ?ctx)))
            \<and> filter isHandlerCall (fst (recordAction exPopulator ?C ?R JNull)) = []"
    using conjunct2 [OF T, rule_format, of "RRec exBob" "[RRec exBob]"] f p g' by blast
  have n: "name ?a = ''approve''" "id_r (ctx_resource ?ctx) = ''orders''"
    by (simp_all add: exAction_def exResource_def)
  have e: "exFindOne (Some ''42'') = Inr (RRec exBob)" by (simp add: exFindOne_def)
  have c: "currentAdmin ?C = JStr ''guest''" by (simp add: exController_def)
  show ?thesis
    using h1 g r1 r2 e p g' unfolding n c by blast
qed

text \<open>
  C2, as the code has it. In every run of \<open>recordAction\<close> no access check comes
  before the call of the populator, the access check is made at most once, and a handler
  that is called gets in its context the very record the access check was asked about.
  When the resource and the action resolve and \<open>findOne\<close> and the populator return
  (with \<^verbatim>\<open>null\<close> or a record), the calls are, in this order: \<open>findOne\<close>, the populator on
  the one-element list of what \<open>findOne\<close> gave, exactly one access check on the first
  element of what the populator returned (\<^verbatim>\<open>undefined\<close> if it returned none), and, if
  the check passed, the handler with that same record in its context.
\<close>

theorem recordAction_check_precedes_handler:
  "populatedFirst (fst (recordAction populator this request response))
   \<and> length (checkedRecords (fst (recordAction populator this request response))) \<le> 1
   \<and> (handledRecords (fst (recordAction populator this request response)) = []
      \<or> handledRecords (fst (recordAction populator this request response)) =
         checkedRecords (fst (recordAction populator this request response)))
   \<and> (\<forall>ctx a found populated record.
        getActionContext this request = Inr ctx \<and> ctx_action ctx = OwnAction a
        \<and> findOne (ctx_resource ctx) (recordId (params request)) = Inr found
        \<and> populator [found] = Inr populated
        \<and> record = (case populated of [] \<Rightarrow> RUndefined | r # rest \<Rightarrow> r) \<longrightarrow>
        fst (recordAction populator this request response) =
          [FindOneCall (id_r (ctx_resource ctx)) (recordId (params request)),
           PopulatorCall [found],
           IsAccessibleCall (name a) (currentAdmin this) record]
          @ (if isAccessible a (currentAdmin this) record
             then [HandlerCall (name a) request response
                     \<lparr>hc_resource = id_r (ctx_resource ctx), hc_action = name a,
                      hc_currentAdmin = currentAdmin this, hc_record = Some record\<rparr>]
             else [])
        \<and> checkedRecords (fst (recordAction populator this request response)) = [Some record])"
proof -
  have A: "populatedFirst (fst (recordAction populator this request response))
   \<and> length (checkedRecords (fst (recordAction populator this request response))) \<le> 1
   \<and> (handledRecords (fst (recordAction populator this request response)) = []
      \<or> handledRecords (fst (recordAction populator this request response)) =
         checkedRecords (fst (recordAction populator this request response)))"
    using recordAction_trace_shape [OF refl] by blast
  have B: "\<forall>ctx a found populated record.
        getActionContext this request = Inr ctx \<and> ctx_action ctx = OwnAction a
        \<and> findOne (ctx_resource ctx) (recordId (params request)) = Inr found
        \<and> populator [found] = Inr populated
        \<and> record = (case populated of [] \<Rightarrow> RUndefined | r # rest \<Rightarrow> r) \<longrightarrow>
        fst (recordAction populator this request response) =
          [FindOneCall (id_r (ctx_resource ctx)) (recordId (params request)),
           PopulatorCall [found],
           IsAccessibleCall (name a) (currentAdmin this) record]
          @ (if isAccessible a (currentAdmin this) record
             then [HandlerCall (name a) request response
                     \<lparr>hc_resource = id_r (ctx_resource ctx), hc_action = name a,
                      hc_currentAdmin = currentAdmin this, hc_record = Some record\<rparr>]
             else [])
        \<and> checkedRecords (fst (recordAction populator this request response)) = [Some record]"
    by (auto simp: recordAction_def getActionContext_def handlerContext_def firstRecord_def
          Let_def split: sum.splits)
  from A B show ?thesis by blast
qed

theorem recordAction_check_precedes_handler_witness:
  "getActionContext (exController (JStr ''root'') (exActions ''approve'' (Inr exRecordJSON)))
      (exRequest ''approve'' (Some ''7'') None)
    = Inr \<lparr>ctx_resource = exResource (exActions ''approve'' (Inr exRecordJSON)),
           ctx_action = OwnAction (exAction ''approve'' (Inr exRecordJSON)),
           ctx_currentAdmin = JStr ''root''\<rparr>
   \<and> exFindOne (Some ''7'') = Inr RNull
   \<and> exPopulator [RNull] = Inr [RNull]
   \<and> fst (recordAction exPopulator
            (exController (JStr ''root'') (exActions ''approve'' (Inr exRecordJSON)))
            (exRequest ''approve'' (Some ''7'') None) JNull)
      = [FindOneCall ''orders'' (Some ''7''), PopulatorCall [RNull],
         IsAccessibleCall ''approve'' (JStr ''root'') RNull,
         HandlerCall ''approve'' (exRequest ''approve'' (Some ''7'') None) JNull
           \<lparr>hc_resource = ''orders'', hc_action = ''approve'', hc_currentAdmin = JStr ''root'',
            hc_record = Some RNull\<rparr>]
   \<and> getActionContext (exController (JStr ''guest'') [(''approve'', exCustomerAction)])
      (exRequest ''approve'' (Some ''42'') None)
    = Inr \<lparr>ctx_resource = exResource [(''approve'', exCustomerAction)],
           ctx_action = OwnAction exCustomerAction, ctx_currentAdmin = JStr ''guest''\<rparr>
   \<and> exFindOne (Some ''42'') = Inr (RRec exBob)
   \<and> exResolving [RRec exBob] = Inr [exResolve (RRec exBob)]
   \<and> exResolve (RRec exBob) \<noteq> RRec exBob
   \<and> \<not> isAccessible exCustomerAction (JStr ''guest'') (RRec exBob)
   \<and> isAccessible exCustomerAction (JStr ''guest'') (exResolve (RRec exBob))
   \<and> fst (recordAction exResolving
            (exController (JStr ''guest'') [(''approve'', exCustomerAction)])
            (exRequest ''approve'' (Some ''42'') None) JNull)
      = [FindOneCall ''orders'' (Some ''42''), PopulatorCall [RRec exBob],
         IsAccessibleCall ''approve'' (JStr ''guest'') (exResolve (RRec exBob)),
         HandlerCall ''approve'' (exRequest ''approve'' (Some ''42'') None) JNull
           \<lparr>hc_resource = ''orders'', hc_action = ''approve'', hc_currentAdmin = JStr ''guest'',
            hc_record = Some (exResolve (RRec exBob))\<rparr>]
   \<and> checkedRecords (fst (recordAction exResolving
            (exController (JStr ''guest'') [(''approve'', exCustomerAction)])
            (exRequest ''approve'' (Some ''42'') None) JNull))
      = [Some (exResolve (RRec exBob))]"
proof -
  let ?C = "exController (JStr ''root'') (exActions ''approve'' (Inr exRecordJSON))"
  let ?R = "exRequest ''approve'' (Some ''7'') None"
  let ?a = "exAction ''approve'' (Inr exRecordJSON)"
  let ?ctx = "\<lparr>ctx_resource = exResource (exActions ''approve'' (Inr exRecordJSON)),
               ctx_action = OwnAction ?a, ctx_currentAdmin = JStr ''root''\<rparr>"
  have h1: "getActionContext ?C ?R = Inr ?ctx" by (rule ex_context)
  have f: "findOne (ctx_resource ?ctx) (recordId (params ?R)) = Inr RNull"
    by (simp add: exResource_def exRequest_def exFindOne_def)
  have p: "exPopulator [RNull] = Inr [RNull]" by (simp add: exPopulator_def)
  have e: "exFindOne (Some ''7'') = Inr RNull" by (simp add: exFindOne_def)
  note T = recordAction_check_precedes_handler
    [where populator = exPopulator and this = ?C and request = ?R and response = JNull]
  have t: "fst (recordAction exPopulator ?C ?R JNull) =
      [FindOneCall ''orders'' (Some ''7''), PopulatorCall [RNull],
       IsAccessibleCall ''approve'' (JStr ''root'') RNull,
       HandlerCall ''approve'' ?R JNull
         \<lparr>hc_resource = ''orders'', hc_action = ''approve'', hc_currentAdmin = JStr ''root'',
          hc_record = Some RNull\<rparr>]"
    using T h1 f p
    by (simp add: exResource_def exAction_def exController_def exRequest_def)
  let ?D = "exController (JStr ''guest'') [(''approve'', exCustomerAction)]"
  let ?S = "exRequest ''approve'' (Some ''42'') None"
  let ?dtx = "\<lparr>ctx_resource = exResource [(''approve'', exCustomerAction)],
               ctx_action = OwnAction exCustomerAction, ctx_currentAdmin = JStr ''guest''\<rparr>"
  have k1: "getActionContext ?D ?S = Inr ?dtx"
    by (simp add: getActionContext_def readAction_def exController_def exRequest_def
          exResource_def)
  have kf: "findOne (ctx_resource ?dtx) (recordId (params ?S)) = Inr (RRec exBob)"
    by (simp add: exResource_def exRequest_def exFindOne_def)
  have kp: "exResolving [RRec exBob] = Inr [exResolve (RRec exBob)]"
    by (simp add: exResolving_def)
  have ke: "exFindOne (Some ''42'') = Inr (RRec exBob)" by (simp add: exFindOne_def)
  have kd: "exResolve (RRec exBob) \<noteq> RRec exBob" by (simp add: exBob_def)
  have kn: "\<not> isAccessible exCustomerAction (JStr ''guest'') (RRec exBob)"
    by (simp add: exCustomerAction_def exBob_def)
  have ky: "isAccessible exCustomerAction (JStr ''guest'') (exResolve (RRec exBob))"
    by (simp add: exCustomerAction_def exBob_def)
  note U = recordAction_check_precedes_handler
    [where populator = exResolving and this = ?D and request = ?S and response = JNull]
  have u: "fst (recordAction exResolving ?D ?S JNull) =
      [FindOneCall ''orders'' (Some ''42''), PopulatorCall [RRec exBob],
       IsAccessibleCall ''approve'' (JStr ''guest'') (exResolve (RRec exBob)),
       HandlerCall ''approve'' ?S JNull
         \<lparr>hc_resource = ''orders'', hc_action = ''approve'', hc_currentAdmin = JStr ''guest'',
          hc_record = Some (exResolve (RRec exBob))\<rparr>]
      \<and> checkedRecords (fst (recordAction exResolving ?D ?S JNull))
          = [Some (exResolve (RRec exBob))]"
    using U k1 kf kp ky
    by (simp add: exResource_def exCustomerAction_def exController_def exRequest_def
          del: exResolve.simps)
  show ?thesis using h1 e p t k1 ke kp kd kn ky u by blast
qed

text \<open>
  C2, as the claim words it: for a resource id that does not resolve the access check is
  not made once but never, and the populator is not called.
\<close>

theorem recordAction_no_check_counterexample:
  "findResource (admin (exController (JStr ''root'') (exActions ''approve'' (Inr exRecordJSON))))
      ''nowhere'' = Inl (NotFoundError ''nowhere'')
   \<and> recordAction exPopulator
        (exController (JStr ''root'') (exActions ''approve'' (Inr exRecordJSON)))
        \<lparr>params = \<lparr>resourceId = ''nowhere'', action = ''approve'',
                    recordId = Some ''42'', query = None\<rparr>, payload = JNull\<rparr> JNull
      = ([], Inl (NotFoundError ''nowhere''))
   \<and> checkedRecords (fst (recordAction exPopulator
        (exController (JStr ''root'') (exActions ''approve'' (Inr exRecordJSON)))
        \<lparr>params = \<lparr>resourceId = ''nowhere'', action = ''approve'',
                    recordId = Some ''42'', query = None\<rparr>, payload = JNull\<rparr> JNull)) = []"
  by (simp add: recordAction_def getActionContext_def Let_def exController_def)

text \<open>
  C3, as the code has it. Once the handler of a record action has completed with a
  value: if the value lacks a \<^verbatim>\<open>record\<close> field containing a \<^verbatim>\<open>recordActions\<close> field,
  the call fails with the \<open>ConfigurationError\<close> and the value is not returned; the
  value is returned unchanged exactly when it, its \<^verbatim>\<open>record\<close> and its
  \<^verbatim>\<open>record.recordActions\<close> are all truthy, and otherwise the call fails with that
  error.
\<close>

theorem recordAction_result_validated:
  assumes "getActionContext this request = Inr ctx" and "ctx_action ctx = OwnAction a"
    and "findOne (ctx_resource ctx) (recordId (params request)) = Inr found"
    and "populator [found] = Inr populated"
    and "isAccessible a (currentAdmin this) (firstRecord populated)"
    and "handler a request response (handlerContext ctx a (Some (firstRecord populated))) = Inr v"
  shows "(\<not> (hasProp v ''record'' \<and> hasProp (getProp v ''record'') ''recordActions'') \<longrightarrow>
            snd (recordAction populator this request response) =
              Inl (ConfigurationError
                     ''handler of a recordAction should return a RecordJSON object''
                     ''Action.handler''))
       \<and> (snd (recordAction populator this request response) = Inr v)
           = (truthy v \<and> truthy (getProp v ''record'')
              \<and> truthy (getProp (getProp v ''record'') ''recordActions''))
       \<and> (\<not> (truthy v \<and> truthy (getProp v ''record'')
               \<and> truthy (getProp (getProp v ''record'') ''recordActions'')) \<longrightarrow>
            snd (recordAction populator this request response) =
              Inl (ConfigurationError
                     ''handler of a recordAction should return a RecordJSON object''
                     ''Action.handler''))"
proof -
  have "\<not> (hasProp v ''record'' \<and> hasProp (getProp v ''record'') ''recordActions'') \<Longrightarrow>
        \<not> truthy (getProp (getProp v ''record'') ''recordActions'')"
    using getProp_absent [of v "''record''"]
      getProp_absent [of "getProp v ''record''" "''recordActions''"]
    by auto
  then show ?thesis
    using recordAction_completed [where populator = populator, OF assms] by auto
qed

theorem recordAction_result_validated_witness:
  "\<not> (hasProp exNoActionsJSON ''record''
       \<and> hasProp (getProp exNoActionsJSON ''record'') ''recordActions'')
   \<and> snd (recordAction exPopulator
            (exController (JStr ''root'') (exActions ''approve'' (Inr exNoActionsJSON)))
            (exRequest ''approve'' (Some ''42'') None) JNull)
      = Inl (ConfigurationError
               ''handler of a recordAction should return a RecordJSON object''
               ''Action.handler'')
   \<and> truthy exRecordJSON \<and> truthy (getProp exRecordJSON ''record'')
   \<and> truthy (getProp (getProp exRecordJSON ''record'') ''recordActions'')
   \<and> snd (recordAction exPopulator
            (exController (JStr ''root'') (exActions ''approve'' (Inr exRecordJSON)))
            (exRequest ''approve'' (Some ''42'') None) JNull)
      = Inr exRecordJSON"
proof -
  let ?R = "exRequest ''approve'' (Some ''42'') None"
  have pre: "findOne (exResource acts) (recordId (params ?R)) = Inr (RRec exBob)"
            "exPopulator [RRec exBob] = Inr [RRec exBob]"
            "isAccessible (exAction ''approve'' res) (currentAdmin (exController (JStr ''root'') acts))
               (firstRecord [RRec exBob])"
            "handler (exAction ''approve'' res) ?R JNull c = res" for acts res c
    by (simp_all add: exResource_def exRequest_def exFindOne_def exPopulator_def exAction_def
          exController_def)
  have lacks: "\<not> (hasProp exNoActionsJSON ''record''
                   \<and> hasProp (getProp exNoActionsJSON ''record'') ''recordActions'')"
    by (simp add: exNoActionsJSON_def)
  have full: "truthy exRecordJSON \<and> truthy (getProp exRecordJSON ''record'')
              \<and> truthy (getProp (getProp exRecordJSON ''record'') ''recordActions'')"
    by (simp add: exRecordJSON_def)
  have r1: "snd (recordAction exPopulator
              (exController (JStr ''root'') (exActions ''approve'' (Inr exNoActionsJSON))) ?R JNull)
            = Inl (ConfigurationError
                     ''handler of a recordAction should return a RecordJSON object''
                     ''Action.handler'')"
    using recordAction_result_validated
      [where populator = exPopulator and response = JNull and v = exNoActionsJSON
         and found = "RRec exBob" and populated = "[RRec exBob]", OF ex_context] pre lacks
    by simp
  have r2: "snd (recordAction exPopulator
              (exController (JStr ''root'') (exActions ''approve'' (Inr exRecordJSON))) ?R JNull)
            = Inr exRecordJSON"
    using recordAction_result_validated
      [where populator = exPopulator and response = JNull and v = exRecordJSON
         and found = "RRec exBob" and populated = "[RRec exBob]", OF ex_context] pre full
    by simp
  show ?thesis using lacks r1 full r2 by blast
qed

text \<open>
  C3, as the claim words it: a result that has a \<^verbatim>\<open>record\<close> field containing a
  \<^verbatim>\<open>recordActions\<close> field, here with the value \<^verbatim>\<open>null\<close>, is not returned.
\<close>

theorem recordAction_present_field_counterexample:
  "hasProp exNullActionsJSON ''record''
   \<and> hasProp (getProp exNullActionsJSON ''record'') ''recordActions''
   \<and> isAccessible (exAction ''approve'' (Inr exNullActionsJSON)) (JStr ''root'') (RRec exBob)
   \<and> recordAction exPopulator
        (exController (JStr ''root'') (exActions ''approve'' (Inr exNullActionsJSON)))
        (exRequest ''approve'' (Some ''42'') None) JNull
      = ([FindOneCall ''orders'' (Some ''42''), PopulatorCall [RRec exBob],
          IsAccessibleCall ''approve'' (JStr ''root'') (RRec exBob),
          HandlerCall ''approve'' (exRequest ''approve'' (Some ''42'') None) JNull
            \<lparr>hc_resource = ''orders'', hc_action = ''approve'', hc_currentAdmin = JStr ''root'',
             hc_record = Some (RRec exBob)\<rparr>],
         Inl (ConfigurationError
                ''handler of a recordAction should return a RecordJSON object''
                ''Action.handler''))"
  by (simp add: recordAction_def getActionContext_def readAction_def handlerContext_def
        firstRecord_def Let_def exNullActionsJSON_def exController_def exRequest_def exResource_def exAction_def
        exActions_def exFindOne_def exPopulator_def)

text \<open>
  C4, as the code has it. Building the context fails with the error \<open>findResource\<close>
  raises (its \<open>NotFoundError\<close> for an unknown resource id), and then so do both
  actions. The action name is not checked: whenever the resource resolves, building the
  context succeeds and the context holds what the read \<^verbatim>\<open>actions[actionName]\<close> gives,
  the registered action for a registered name and no action for any other name
  (\<^verbatim>\<open>undefined\<close>, or the inherited member when the name is a key of
  \<^verbatim>\<open>Object.prototype\<close>).
\<close>

theorem getActionContext_resolution:
  "(\<forall>e. findResource (admin this) (resourceId (params request)) = Inl e \<longrightarrow>
        getActionContext this request = Inl e
        \<and> snd (resourceAction this request response) = Inl e
        \<and> snd (recordAction populator this request response) = Inl e)
   \<and> (\<forall>resource.
        findResource (admin this) (resourceId (params request)) = Inr resource \<longrightarrow>
        (\<exists>act.
           getActionContext this request =
             Inr \<lparr>ctx_resource = resource, ctx_action = act, ctx_currentAdmin = currentAdmin this\<rparr>
           \<and> (case map_of (actions (decorate resource)) (action (params request)) of
                 Some a \<Rightarrow> act = OwnAction a
               | None \<Rightarrow>
                   act = (if action (params request) \<in> set objectPrototypeKeys
                          then InheritedMember (action (params request)) else NoAction))))"
  by (auto simp: getActionContext_def resourceAction_def recordAction_def readAction_def Let_def
           split: sum.splits option.splits)

theorem getActionContext_resolution_witness:
  "findResource (admin (exController (JStr ''root'') []))
      (resourceId (params \<lparr>params = \<lparr>resourceId = ''nowhere'', action = ''approve'',
                                      recordId = None, query = None\<rparr>, payload = JNull\<rparr>))
     = Inl (NotFoundError ''nowhere'')
   \<and> getActionContext (exController (JStr ''root'') [])
        \<lparr>params = \<lparr>resourceId = ''nowhere'', action = ''approve'',
                    recordId = None, query = None\<rparr>, payload = JNull\<rparr>
     = Inl (NotFoundError ''nowhere'')
   \<and> snd (resourceAction (exController (JStr ''root'') [])
        \<lparr>params = \<lparr>resourceId = ''nowhere'', action = ''approve'',
                    recordId = None, query = None\<rparr>, payload = JNull\<rparr> JNull)
     = Inl (NotFoundError ''nowhere'')
   \<and> snd (recordAction exPopulator (exController (JStr ''root'') [])
        \<lparr>params = \<lparr>resourceId = ''nowhere'', action = ''approve'',
                    recordId = None, query = None\<rparr>, payload = JNull\<rparr> JNull)
     = Inl (NotFoundError ''nowhere'')
   \<and> findResource (admin (exController (JStr ''root'') []))
        (resourceId (params (exRequest ''approve'' (Some ''42'') None)))
     = Inr (exResource [])
   \<and> map_of (actions (decorate (exResource []))) (action (params (exRequest ''approve'' (Some ''42'') None)))
     = None
   \<and> (\<exists>act. getActionContext (exController (JStr ''root'') []) (exRequest ''approve'' (Some ''42'') None)
        = Inr \<lparr>ctx_resource = exResource [], ctx_action = act, ctx_currentAdmin = JStr ''root''\<rparr>
        \<and> act = NoAction)"
proof -
  let ?C = "exController (JStr ''root'') []"
  let ?N = "\<lparr>params = \<lparr>resourceId = ''nowhere'', action = ''approve'',
                        recordId = None, query = None\<rparr>, payload = JNull\<rparr>"
  let ?R = "exRequest ''approve'' (Some ''42'') None"
  have a1: "findResource (admin ?C) (resourceId (params ?N)) = Inl (NotFoundError ''nowhere'')"
    by (simp add: exController_def)
  have a2: "getActionContext ?C ?N = Inl (NotFoundError ''nowhere'')
            \<and> snd (resourceAction ?C ?N JNull) = Inl (NotFoundError ''nowhere'')
            \<and> snd (recordAction exPopulator ?C ?N JNull) = Inl (NotFoundError ''nowhere'')"
    using conjunct1 [OF getActionContext_resolution [of ?C ?N JNull exPopulator], rule_format, OF a1]
    by blast
  have b1: "findResource (admin ?C) (resourceId (params ?R)) = Inr (exResource [])"
    by (rule ex_resource)
  have b2: "map_of (actions (decorate (exResource []))) (action (params ?R)) = None"
    by (simp add: exResource_def)
  have b3: "\<exists>act. getActionContext ?C ?R
              = Inr \<lparr>ctx_resource = exResource [], ctx_action = act, ctx_currentAdmin = JStr ''root''\<rparr>
              \<and> act = NoAction"
    using conjunct2 [OF getActionContext_resolution [of ?C ?R JNull exPopulator], rule_format, OF b1]
      b2
    by (simp add: exController_def exRequest_def objectPrototypeKeys_def)
  show ?thesis using a1 a2 b1 b2 b3 by blast
qed

text \<open>
  C4, as the claim words it: with a registered resource and an action name that is not
  registered, building the context succeeds, and neither action fails with
  \<open>NotFoundError\<close>.
\<close>

theorem unknown_action_counterexample:
  "map_of (actions (decorate (exResource []))) ''approve'' = None
   \<and> getActionContext (exController (JStr ''root'') []) (exRequest ''approve'' (Some ''42'') None)
      = Inr \<lparr>ctx_resource = exResource [], ctx_action = NoAction, ctx_currentAdmin = JStr ''root''\<rparr>
   \<and> snd (resourceAction (exController (JStr ''root'') []) (exRequest ''approve'' (Some ''42'') None) JNull)
      = Inl (TypeError ''Cannot read property isAccessible of undefined'')
   \<and> snd (recordAction exPopulator (exController (JStr ''root'') [])
            (exRequest ''approve'' (Some ''42'') None) JNull)
      = Inl (TypeError ''Cannot read property isAccessible of undefined'')
   \<and> getActionContext (exController (JStr ''root'') []) (exRequest ''constructor'' (Some ''42'') None)
      = Inr \<lparr>ctx_resource = exResource [], ctx_action = InheritedMember ''constructor'',
             ctx_currentAdmin = JStr ''root''\<rparr>
   \<and> snd (resourceAction (exController (JStr ''root'') []) (exRequest ''constructor'' (Some ''42'') None) JNull)
      = Inl (TypeError ''isAccessible is not a function'')"
  by (simp add: getActionContext_def resourceAction_def recordAction_def readAction_def
        objectPrototypeKeys_def Let_def ex_defs)

text \<open>
  C5. When the actor fails the access check of the resource's \<^verbatim>\<open>list\<close> action (asked
  with \<^verbatim>\<open>null\<close>), \<open>search\<close> fails with \<open>ForbiddenError\<close> for the action name \<^verbatim>\<open>list\<close>
  and the resource's id, and \<open>find\<close> is not called.
\<close>

theorem search_forbidden_without_find:
  assumes "findResource (admin this) (resourceId (params request)) = Inr resource"
    and "map_of (actions (decorate resource)) ''list'' = Some list"
    and "\<not> isAccessible list (currentAdmin this) RNull"
  shows "snd (search this request) = Inl (ForbiddenError ''list'' (id_r resource))
       \<and> filter isFindCall (fst (search this request)) = []"
  using assms by (simp add: search_def Let_def)

theorem search_forbidden_without_find_witness:
  "findResource (admin (exController (JStr ''guest'') (exActions ''list'' (Inr JNull))))
      (resourceId (params (exRequest ''search'' None (Some []))))
     = Inr (exResource (exActions ''list'' (Inr JNull)))
   \<and> map_of (actions (decorate (exResource (exActions ''list'' (Inr JNull))))) ''list''
     = Some (exAction ''list'' (Inr JNull))
   \<and> \<not> isAccessible (exAction ''list'' (Inr JNull))
         (currentAdmin (exController (JStr ''guest'') (exActions ''list'' (Inr JNull)))) RNull
   \<and> snd (search (exController (JStr ''guest'') (exActions ''list'' (Inr JNull)))
           (exRequest ''search'' None (Some [])))
     = Inl (ForbiddenError ''list'' ''orders'')
   \<and> filter isFindCall (fst (search (exController (JStr ''guest'') (exActions ''list'' (Inr JNull)))
           (exRequest ''search'' None (Some [])))) = []"
proof -
  let ?C = "exController (JStr ''guest'') (exActions ''list'' (Inr JNull))"
  let ?R = "exRequest ''search'' None (Some [])"
  have h1: "findResource (admin ?C) (resourceId (params ?R))
              = Inr (exResource (exActions ''list'' (Inr JNull)))"
    by (rule ex_resource)
  have h2: "map_of (actions (decorate (exResource (exActions ''list'' (Inr JNull))))) ''list''
              = Some (exAction ''list'' (Inr JNull))"
    by (rule ex_list_action)
  have h3: "\<not> isAccessible (exAction ''list'' (Inr JNull)) (currentAdmin ?C) RNull"
    by (simp add: exAction_def exController_def)
  have i: "id_r (exResource (exActions ''list'' (Inr JNull))) = ''orders''"
    by (simp add: exResource_def)
  show ?thesis
    using h1 h2 h3 search_forbidden_without_find [OF h1 h2 h3] unfolding i by blast
qed

text \<open>
  C6. When the \<^verbatim>\<open>list\<close> action is accessible, \<open>search\<close> calls \<open>find\<close> exactly once,
  with the filter \<^verbatim>\<open>{ [titlePropertyName]: query }\<close> for a non-empty query term and the
  empty filter otherwise, with limit 50 and ascending sort by the title property. So,
  when the result of that call honours the limit and the sort it was given, \<open>search\<close>
  returns one entry per record of it, at most 50, for records sorted ascending by the
  title property.
\<close>

theorem search_find_arguments:
  assumes "findResource (admin this) (resourceId (params request)) = Inr resource"
    and "map_of (actions (decorate resource)) ''list'' = Some list"
    and "isAccessible list (currentAdmin this) RNull"
  shows "filter isFindCall (fst (search this request)) =
           [FindCall (id_r resource)
              \<lparr>filters = (case query (params request) of
                            None \<Rightarrow> []
                          | Some q \<Rightarrow> if q = [] then [] else [(titleProperty (decorate resource), q)]),
               filter_resource = id_r resource\<rparr>
              \<lparr>limit = 50,
               sort_o = \<lparr>sortBy = titleProperty (decorate resource), direction = asc\<rparr>\<rparr>]
       \<and> (\<forall>f opts records.
            filter isFindCall (fst (search this request)) = [FindCall (id_r resource) f opts]
            \<and> find_r resource f opts = Inr records
            \<and> honoursOptions le opts records \<longrightarrow>
            snd (search this request) =
              Inr (JObj [(''records'', JArr (map (\<lambda>r. toJSON r (currentAdmin this)) records))])
            \<and> length (map (\<lambda>r. toJSON r (currentAdmin this)) records) \<le> 50
            \<and> sortedAscBy le (titleProperty (decorate resource)) records)"
  using assms
  by (auto simp: search_def Let_def honoursOptions_def split: sum.splits option.splits)

theorem search_find_arguments_witness:
  "findResource (admin (exController (JStr ''root'') (exActions ''list'' (Inr JNull))))
      (resourceId (params (exRequest ''search'' None (Some []))))
     = Inr (exResource (exActions ''list'' (Inr JNull)))
   \<and> map_of (actions (decorate (exResource (exActions ''list'' (Inr JNull))))) ''list''
     = Some (exAction ''list'' (Inr JNull))
   \<and> isAccessible (exAction ''list'' (Inr JNull))
       (currentAdmin (exController (JStr ''root'') (exActions ''list'' (Inr JNull)))) RNull
   \<and> find_r (exResource (exActions ''list'' (Inr JNull)))
        \<lparr>filters = [], filter_resource = ''orders''\<rparr>
        \<lparr>limit = 50, sort_o = \<lparr>sortBy = ''name'', direction = asc\<rparr>\<rparr> = Inr [exAnn, exBob]
   \<and> honoursOptions exLe \<lparr>limit = 50, sort_o = \<lparr>sortBy = ''name'', direction = asc\<rparr>\<rparr> [exAnn, exBob]
   \<and> filter isFindCall (fst (search (exController (JStr ''root'') (exActions ''list'' (Inr JNull)))
           (exRequest ''search'' None (Some []))))
     = [FindCall ''orders'' \<lparr>filters = [], filter_resource = ''orders''\<rparr>
          \<lparr>limit = 50, sort_o = \<lparr>sortBy = ''name'', direction = asc\<rparr>\<rparr>]
   \<and> snd (search (exController (JStr ''root'') (exActions ''list'' (Inr JNull)))
           (exRequest ''search'' None (Some [])))
     = Inr (JObj [(''records'', JArr [toJSON exAnn (JStr ''root''), toJSON exBob (JStr ''root'')])])
   \<and> sortedAscBy exLe ''name'' [exAnn, exBob]"
proof -
  let ?C = "exController (JStr ''root'') (exActions ''list'' (Inr JNull))"
  let ?R = "exRequest ''search'' None (Some [])"
  let ?res = "exResource (exActions ''list'' (Inr JNull))"
  let ?F = "\<lparr>filters = [], filter_resource = ''orders''\<rparr>"
  let ?O = "\<lparr>limit = 50, sort_o = \<lparr>sortBy = ''name'', direction = asc\<rparr>\<rparr>"
  have h1: "findResource (admin ?C) (resourceId (params ?R)) = Inr ?res"
    by (rule ex_resource)
  have h2: "map_of (actions (decorate ?res)) ''list'' = Some (exAction ''list'' (Inr JNull))"
    by (rule ex_list_action)
  have h3: "isAccessible (exAction ''list'' (Inr JNull)) (currentAdmin ?C) RNull"
    by (simp add: exAction_def exController_def)
  have h4: "find_r ?res ?F ?O = Inr [exAnn, exBob]"
    by (simp add: exResource_def exFind_def)
  have h5: "honoursOptions exLe ?O [exAnn, exBob]"
    by (simp add: honoursOptions_def sortedAscBy_def param_def exAnn_def exBob_def)
  note T = search_find_arguments [OF h1 h2 h3, of exLe]
  have call: "filter isFindCall (fst (search ?C ?R)) = [FindCall ''orders'' ?F ?O]"
    using conjunct1 [OF T] by (simp add: exRequest_def exResource_def)
  have call': "filter isFindCall (fst (search ?C ?R)) = [FindCall (id_r ?res) ?F ?O]"
    using call by (simp add: exResource_def)
  have rest: "snd (search ?C ?R) =
                Inr (JObj [(''records'', JArr (map (\<lambda>r. toJSON r (currentAdmin ?C)) [exAnn, exBob]))])
              \<and> length (map (\<lambda>r. toJSON r (currentAdmin ?C)) [exAnn, exBob]) \<le> 50
              \<and> sortedAscBy exLe (titleProperty (decorate ?res)) [exAnn, exBob]"
    using conjunct2 [OF T, rule_format, of ?F ?O "[exAnn, exBob]"] call' h4 h5 by blast
  have r: "snd (search ?C ?R) =
             Inr (JObj [(''records'', JArr [toJSON exAnn (JStr ''root''), toJSON exBob (JStr ''root'')])])"
          "sortedAscBy exLe ''name'' [exAnn, exBob]"
    using rest by (simp_all add: exController_def exResource_def)
  show ?thesis using h1 h2 h3 h4 h5 call r by blast
qed

text \<open>
  C7. \<open>search\<close> returns \<^verbatim>\<open>{ records: [...] }\<close> with one entry per record that \<open>find\<close>
  returned, in the same order, each of exactly the shape \<^verbatim>\<open>{ id, title }\<close>, the title
  being the record's title-property value serialized for the current admin; besides the
  access check it calls nothing but that one \<open>find\<close>.
\<close>

theorem search_maps_records:
  assumes "findResource (admin this) (resourceId (params request)) = Inr resource"
    and "map_of (actions (decorate resource)) ''list'' = Some list"
    and "isAccessible list (currentAdmin this) RNull"
    and "filter isFindCall (fst (search this request)) = [FindCall rid f opts]"
    and "find_r resource f opts = Inr records"
  shows "snd (search this request) =
           Inr (JObj [(''records'',
                  JArr (map (\<lambda>r. JObj [(''id'', JStr (rec_id r)),
                                         (''title'', JStr (rec_title r (currentAdmin this)))])
                          records))])
       \<and> fst (search this request) =
           [IsAccessibleCall (name list) (currentAdmin this) RNull, FindCall (id_r resource) f opts]"
  using assms
  by (auto simp: search_def Let_def toJSON_def split: sum.splits option.splits)

theorem search_maps_records_witness:
  "findResource (admin (exController (JStr ''root'') (exActions ''list'' (Inr JNull))))
      (resourceId (params (exRequest ''search'' None (Some ''Bo''))))
     = Inr (exResource (exActions ''list'' (Inr JNull)))
   \<and> map_of (actions (decorate (exResource (exActions ''list'' (Inr JNull))))) ''list''
     = Some (exAction ''list'' (Inr JNull))
   \<and> isAccessible (exAction ''list'' (Inr JNull))
       (currentAdmin (exController (JStr ''root'') (exActions ''list'' (Inr JNull)))) RNull
   \<and> filter isFindCall (fst (search (exController (JStr ''root'') (exActions ''list'' (Inr JNull)))
           (exRequest ''search'' None (Some ''Bo''))))
     = [FindCall ''orders'' \<lparr>filters = [(''name'', ''Bo'')], filter_resource = ''orders''\<rparr>
          \<lparr>limit = 50, sort_o = \<lparr>sortBy = ''name'', direction = asc\<rparr>\<rparr>]
   \<and> find_r (exResource (exActions ''list'' (Inr JNull)))
        \<lparr>filters = [(''name'', ''Bo'')], filter_resource = ''orders''\<rparr>
        \<lparr>limit = 50, sort_o = \<lparr>sortBy = ''name'', direction = asc\<rparr>\<rparr> = Inr [exBob]
   \<and> snd (search (exController (JStr ''root'') (exActions ''list'' (Inr JNull)))
           (exRequest ''search'' None (Some ''Bo'')))
     = Inr (JObj [(''records'', JArr [JObj [(''id'', JStr ''42''), (''title'', JStr ''Bob B'')]])])"
proof -
  let ?C = "exController (JStr ''root'') (exActions ''list'' (Inr JNull))"
  let ?R = "exRequest ''search'' None (Some ''Bo'')"
  let ?res = "exResource (exActions ''list'' (Inr JNull))"
  let ?F = "\<lparr>filters = [(''name'', ''Bo'')], filter_resource = ''orders''\<rparr>"
  let ?O = "\<lparr>limit = 50, sort_o = \<lparr>sortBy = ''name'', direction = asc\<rparr>\<rparr>"
  have h1: "findResource (admin ?C) (resourceId (params ?R)) = Inr ?res"
    by (rule ex_resource)
  have h2: "map_of (actions (decorate ?res)) ''list'' = Some (exAction ''list'' (Inr JNull))"
    by (rule ex_list_action)
  have h3: "isAccessible (exAction ''list'' (Inr JNull)) (currentAdmin ?C) RNull"
    by (simp add: exAction_def exController_def)
  have h5: "find_r ?res ?F ?O = Inr [exBob]"
    by (simp add: exResource_def exFind_def param_def exAnn_def exBob_def)
  have h4: "filter isFindCall (fst (search ?C ?R)) = [FindCall ''orders'' ?F ?O]"
    using h5
    by (simp add: search_def Let_def exController_def exRequest_def exResource_def
          exActions_def exAction_def)
  have r: "snd (search ?C ?R) =
             Inr (JObj [(''records'', JArr [JObj [(''id'', JStr ''42''), (''title'', JStr ''Bob B'')]])])"
    using conjunct1 [OF search_maps_records [OF h1 h2 h3 h4 h5]]
    by (simp add: exBob_def)
  show ?thesis using h1 h2 h3 h4 h5 r by blast
qed

text \<open>
  C8, as the code has it. With no dashboard handler configured, \<open>dashboard\<close> calls no
  handler, does not fail, and returns a payload with the one field \<^verbatim>\<open>message\<close>. The
  message is one fixed text, the same for every actor, request and response: it begins
  ``You can override this method by setting up dashboard.handler'' and ends ``in
  AdminBro options''.
\<close>

theorem dashboard_default_payload:
  "\<exists>w. \<forall>this request response.
     dashboard_o (options (admin this)) = None
     \<or> (\<exists>d. dashboard_o (options (admin this)) = Some d \<and> dashboard_handler d = None) \<longrightarrow>
     snd (dashboard this request response) =
       Inr (JObj [(''message'',
              JStr (''You can override this method by setting up dashboard.handler''
                    @ w @ ''in AdminBro options''))])
     \<and> filter isDashboardHandlerCall (fst (dashboard this request response)) = []"
  by (rule exI [where x = "'' fuction ''"]) (auto simp: dashboard_def)

theorem dashboard_default_payload_witness:
  "dashboard_o (options (admin (exController JNull []))) = None
   \<and> dashboard_o (options (admin (exController (JStr ''root'') []))) = None
   \<and> (\<exists>w. snd (dashboard (exController JNull []) (exRequest ''x'' None None) JNull) =
             Inr (JObj [(''message'',
                    JStr (''You can override this method by setting up dashboard.handler''
                          @ w @ ''in AdminBro options''))])
           \<and> snd (dashboard (exController (JStr ''root'') []) (exRequest ''y'' (Some ''42'') None)
                   (JStr ''response'')) =
             Inr (JObj [(''message'',
                    JStr (''You can override this method by setting up dashboard.handler''
                          @ w @ ''in AdminBro options''))]))"
proof -
  have h: "dashboard_o (options (admin (exController actor []))) = None" for actor
    by (simp add: exController_def)
  from dashboard_default_payload obtain w where W: "\<forall>this request response.
     dashboard_o (options (admin this)) = None
     \<or> (\<exists>d. dashboard_o (options (admin this)) = Some d \<and> dashboard_handler d = None) \<longrightarrow>
     snd (dashboard this request response) =
       Inr (JObj [(''message'',
              JStr (''You can override this method by setting up dashboard.handler''
                    @ w @ ''in AdminBro options''))])
     \<and> filter isDashboardHandlerCall (fst (dashboard this request response)) = []" ..
  have r1: "snd (dashboard (exController JNull []) (exRequest ''x'' None None) JNull) =
             Inr (JObj [(''message'',
                    JStr (''You can override this method by setting up dashboard.handler''
                          @ w @ ''in AdminBro options''))])"
    by (rule conjunct1 [OF W [rule_format, OF disjI1 [OF h]]])
  have r2: "snd (dashboard (exController (JStr ''root'') []) (exRequest ''y'' (Some ''42'') None)
                   (JStr ''response'')) =
             Inr (JObj [(''message'',
                    JStr (''You can override this method by setting up dashboard.handler''
                          @ w @ ''in AdminBro options''))])"
    by (rule conjunct1 [OF W [rule_format, OF disjI1 [OF h]]])
  have ex: "\<exists>w. snd (dashboard (exController JNull []) (exRequest ''x'' None None) JNull) =
             Inr (JObj [(''message'',
                    JStr (''You can override this method by setting up dashboard.handler''
                          @ w @ ''in AdminBro options''))])
           \<and> snd (dashboard (exController (JStr ''root'') []) (exRequest ''y'' (Some ''42'') None)
                   (JStr ''response'')) =
             Inr (JObj [(''message'',
                    JStr (''You can override this method by setting up dashboard.handler''
                          @ w @ ''in AdminBro options''))])"
    by (rule exI [of _ w], rule conjI, rule r1, rule r2)
  show ?thesis by (rule conjI [OF h conjI [OF h ex]])
qed

text \<open>
  C8, as the claim words it: the message quoted there, which ends ``in options'', is not
  the one returned.
\<close>

theorem dashboard_spec_message_counterexample:
  "dashboard_o (options (admin (exController JNull []))) = None
   \<and> snd (dashboard (exController JNull []) (exRequest ''x'' None None) JNull) \<noteq>
     Inr (JObj [(''message'',
            JStr ''You can override this method by setting up dashboard.handler function in options'')])"
  by (simp add: dashboard_def exController_def)

text \<open>
  C9. For an accessible action \<open>resourceAction\<close> returns what the handler returns, a
  value or a failure alike, with no check of its shape, and calls the handler once.
\<close>

theorem resourceAction_passes_handler_result:
  assumes "getActionContext this request = Inr ctx" and "ctx_action ctx = OwnAction a"
    and "isAccessible a (currentAdmin this) RNull"
  shows "snd (resourceAction this request response) =
           handler a request response (handlerContext ctx a None)
       \<and> filter isHandlerCall (fst (resourceAction this request response)) =
           [HandlerCall (name a) request response (handlerContext ctx a None)]"
  using assms by (simp add: resourceAction_def Let_def)

theorem resourceAction_passes_handler_result_witness:
  "getActionContext (exController (JStr ''root'') (exActions ''export'' (Inl (Thrown (JStr ''boom'')))))
      (exRequest ''export'' None None)
    = Inr \<lparr>ctx_resource = exResource (exActions ''export'' (Inl (Thrown (JStr ''boom'')))),
           ctx_action = OwnAction (exAction ''export'' (Inl (Thrown (JStr ''boom'')))),
           ctx_currentAdmin = JStr ''root''\<rparr>
   \<and> isAccessible (exAction ''export'' (Inl (Thrown (JStr ''boom''))))
       (currentAdmin (exController (JStr ''root'') (exActions ''export'' (Inl (Thrown (JStr ''boom'')))))) RNull
   \<and> snd (resourceAction (exController (JStr ''root'') (exActions ''export'' (Inl (Thrown (JStr ''boom'')))))
        (exRequest ''export'' None None) JNull)
      = Inl (Thrown (JStr ''boom''))
   \<and> snd (resourceAction (exController (JStr ''root'') (exActions ''export'' (Inr (JNum 7))))
        (exRequest ''export'' None None) JNull)
      = Inr (JNum 7)"
proof -
  let ?R = "exRequest ''export'' None None"
  have acc: "isAccessible (exAction ''export'' res)
               (currentAdmin (exController (JStr ''root'') (exActions ''export'' res))) RNull" for res
    by (simp add: exAction_def exController_def)
  have run: "snd (resourceAction (exController (JStr ''root'') (exActions ''export'' res)) ?R JNull) = res"
    for res
    using resourceAction_passes_handler_result
      [where response = JNull and a = "exAction ''export'' res", OF ex_context] acc [of res]
    by (simp add: exAction_def)
  show ?thesis using ex_context acc run by blast
qed

text \<open>
  C10. Once the handler of a record action has completed with a value, the call fails
  with the \<open>ConfigurationError\<close> exactly when the value, its \<^verbatim>\<open>record\<close> or its
  \<^verbatim>\<open>record.recordActions\<close> is falsy: in particular when the value is \<^verbatim>\<open>null\<close> or
  \<^verbatim>\<open>undefined\<close>, when its \<^verbatim>\<open>record\<close> is falsy, and when \<^verbatim>\<open>recordActions\<close> is present
  but falsy.
\<close>

theorem recordAction_truthiness_check:
  assumes "getActionContext this request = Inr ctx" and "ctx_action ctx = OwnAction a"
    and "findOne (ctx_resource ctx) (recordId (params request)) = Inr found"
    and "populator [found] = Inr populated"
    and "isAccessible a (currentAdmin this) (firstRecord populated)"
    and "handler a request response (handlerContext ctx a (Some (firstRecord populated))) = Inr v"
  shows "(snd (recordAction populator this request response) =
            Inl (ConfigurationError
                   ''handler of a recordAction should return a RecordJSON object''
                   ''Action.handler''))
         = (\<not> (truthy v \<and> truthy (getProp v ''record'')
               \<and> truthy (getProp (getProp v ''record'') ''recordActions'')))
       \<and> (v = JNull \<or> v = JUndefined \<or> \<not> truthy (getProp v ''record'')
          \<or> (hasProp (getProp v ''record'') ''recordActions''
              \<and> \<not> truthy (getProp (getProp v ''record'') ''recordActions'')) \<longrightarrow>
          snd (recordAction populator this request response) =
            Inl (ConfigurationError
                   ''handler of a recordAction should return a RecordJSON object''
                   ''Action.handler''))"
  using recordAction_completed [where populator = populator, OF assms] by auto

theorem recordAction_truthiness_check_witness:
  "hasProp (getProp exNullActionsJSON ''record'') ''recordActions''
   \<and> \<not> truthy (getProp (getProp exNullActionsJSON ''record'') ''recordActions'')
   \<and> snd (recordAction exPopulator
            (exController (JStr ''root'') (exActions ''approve'' (Inr exNullActionsJSON)))
            (exRequest ''approve'' (Some ''42'') None) JNull)
      = Inl (ConfigurationError
               ''handler of a recordAction should return a RecordJSON object''
               ''Action.handler'')
   \<and> snd (recordAction exPopulator
            (exController (JStr ''root'') (exActions ''approve'' (Inr JNull)))
            (exRequest ''approve'' (Some ''42'') None) JNull)
      = Inl (ConfigurationError
               ''handler of a recordAction should return a RecordJSON object''
               ''Action.handler'')"
proof -
  let ?R = "exRequest ''approve'' (Some ''42'') None"
  have pre: "findOne (exResource acts) (recordId (params ?R)) = Inr (RRec exBob)"
            "exPopulator [RRec exBob] = Inr [RRec exBob]"
            "isAccessible (exAction ''approve'' res) (currentAdmin (exController (JStr ''root'') acts))
               (firstRecord [RRec exBob])"
            "handler (exAction ''approve'' res) ?R JNull c = res" for acts res c
    by (simp_all add: exResource_def exRequest_def exFindOne_def exPopulator_def exAction_def
          exController_def)
  have falsy: "hasProp (getProp exNullActionsJSON ''record'') ''recordActions''
               \<and> \<not> truthy (getProp (getProp exNullActionsJSON ''record'') ''recordActions'')"
    by (simp add: exNullActionsJSON_def)
  have r1: "snd (recordAction exPopulator
              (exController (JStr ''root'') (exActions ''approve'' (Inr exNullActionsJSON))) ?R JNull)
            = Inl (ConfigurationError
                     ''handler of a recordAction should return a RecordJSON object''
                     ''Action.handler'')"
    using recordAction_truthiness_check
      [where populator = exPopulator and response = JNull and v = exNullActionsJSON
         and found = "RRec exBob" and populated = "[RRec exBob]", OF ex_context] pre falsy
    by simp
  have r2: "snd (recordAction exPopulator
              (exController (JStr ''root'') (exActions ''approve'' (Inr JNull))) ?R JNull)
            = Inl (ConfigurationError
                     ''handler of a recordAction should return a RecordJSON object''
                     ''Action.handler'')"
    using recordAction_truthiness_check
      [where populator = exPopulator and response = JNull and v = JNull
         and found = "RRec exBob" and populated = "[RRec exBob]", OF ex_context] pre
    by simp
  show ?thesis using falsy r1 r2 by blast
qed

end
